theory Spec2Isabelle
  imports Main
begin

section \<open>The scripting runtime: values, JSON, the fetch primitive\<close>

text \<open>
  The client runs on a JavaScript runtime. A value of the language is one of the
  following; an object is the list of its own enumerable properties in enumeration order
  (no key occurs twice in an object the runtime builds). Numbers are restricted to the
  integral ones whose decimal rendering has no exponent; strings to 8-bit characters.
\<close>

datatype jsval =
    JUndefined
  | JNull
  | JBool bool
  | JNum int
  | JStr string
  | JArr "jsval list"
  | JObj "(string \<times> jsval) list"

text \<open>A value of TypeScript type \<open>string | undefined\<close> is a \<open>string option\<close>.\<close>

fun of_optional :: "string option \<Rightarrow> jsval" where
  "of_optional None = JUndefined"
| "of_optional (Some s) = JStr s"

text \<open>Property read \<open>obj[key]\<close>: an absent property reads as \<open>undefined\<close>.\<close>

definition obj_get :: "(string \<times> jsval) list \<Rightarrow> string \<Rightarrow> jsval" where
  "obj_get obj key = (case map_of obj key of None \<Rightarrow> JUndefined | Some v \<Rightarrow> v)"

text \<open>
  Property write \<open>obj[key] = v\<close>: an existing property keeps its place, a new one
  (with a name that is not an array index) is enumerated last.
\<close>

fun obj_set :: "(string \<times> jsval) list \<Rightarrow> string \<Rightarrow> jsval \<Rightarrow> (string \<times> jsval) list" where
  "obj_set [] key v = [(key, v)]"
| "obj_set ((k, w) # obj) key v =
     (if k = key then (k, v) # obj else (k, w) # obj_set obj key v)"

text \<open>\<open>Array.prototype.join\<close> on an array of strings.\<close>

fun join :: "string \<Rightarrow> string list \<Rightarrow> string" where
  "join sep [] = []"
| "join sep [x] = x"
| "join sep (x # y # ys) = x @ sep @ join sep (y # ys)"

text \<open>\<open>Number.prototype.toString\<close> on an integral number.\<close>

definition digit :: "nat \<Rightarrow> char" where
  "digit d = ''0123456789'' ! d"

fun show_nat :: "nat \<Rightarrow> string" where
  "show_nat n = (if n < 10 then [digit n] else show_nat (n div 10) @ [digit (n mod 10)])"

declare show_nat.simps [simp del]

definition Number_toString :: "int \<Rightarrow> string" where
  "Number_toString i = (if i < 0 then CHR ''-'' # show_nat (nat (- i)) else show_nat (nat i))"

text \<open>
  The abstract operation ToString, which the operator \<open>+\<close> applies to a non-string
  operand when the other operand is a string.
\<close>

fun ToString :: "jsval \<Rightarrow> string" and ToString_elements :: "jsval list \<Rightarrow> string list" where
  "ToString JUndefined = ''undefined''"
| "ToString JNull = ''null''"
| "ToString (JBool b) = (if b then ''true'' else ''false'')"
| "ToString (JNum i) = Number_toString i"
| "ToString (JStr s) = s"
| "ToString (JArr xs) = join '','' (ToString_elements xs)"
| "ToString (JObj kvs) = ''[object Object]''"
| "ToString_elements [] = []"
| "ToString_elements (x # xs) =
     (if x = JUndefined \<or> x = JNull then [] else ToString x) # ToString_elements xs"

text \<open>\<open>JSON.stringify\<close> with one argument. \<open>None\<close> is the result \<open>undefined\<close>.\<close>

definition hex_digit :: "nat \<Rightarrow> char" where
  "hex_digit d = ''0123456789abcdef'' ! d"

definition escape_char :: "char \<Rightarrow> string" where
  "escape_char c =
     (if c = CHR 0x22 then [CHR 0x5C, CHR 0x22]
      else if c = CHR 0x5C then [CHR 0x5C, CHR 0x5C]
      else if c = CHR 0x08 then [CHR 0x5C, CHR ''b'']
      else if c = CHR 0x09 then [CHR 0x5C, CHR ''t'']
      else if c = CHR 0x0A then [CHR 0x5C, CHR ''n'']
      else if c = CHR 0x0C then [CHR 0x5C, CHR ''f'']
      else if c = CHR 0x0D then [CHR 0x5C, CHR ''r'']
      else if (of_char c :: nat) < 32
        then [CHR 0x5C, CHR ''u'', CHR ''0'', CHR ''0'',
              hex_digit (of_char c div 16), hex_digit (of_char c mod 16)]
      else [c])"

definition quote :: "string \<Rightarrow> string" where
  "quote s = CHR 0x22 # concat (map escape_char s) @ [CHR 0x22]"

fun JSON_stringify :: "jsval \<Rightarrow> string option"
  and stringify_elements :: "jsval list \<Rightarrow> string list"
  and stringify_properties :: "(string \<times> jsval) list \<Rightarrow> string list" where
  "JSON_stringify JUndefined = None"
| "JSON_stringify JNull = Some ''null''"
| "JSON_stringify (JBool b) = Some (if b then ''true'' else ''false'')"
| "JSON_stringify (JNum i) = Some (Number_toString i)"
| "JSON_stringify (JStr s) = Some (quote s)"
| "JSON_stringify (JArr xs) = Some (''['' @ join '','' (stringify_elements xs) @ '']'')"
| "JSON_stringify (JObj kvs) = Some (''{'' @ join '','' (stringify_properties kvs) @ ''}'')"
| "stringify_elements [] = []"
| "stringify_elements (x # xs) =
     (case JSON_stringify x of None \<Rightarrow> ''null'' | Some s \<Rightarrow> s) # stringify_elements xs"
| "stringify_properties [] = []"
| "stringify_properties ((k, v) # kvs) =
     (case JSON_stringify v of
        None \<Rightarrow> stringify_properties kvs
      | Some s \<Rightarrow> (quote k @ '':'' @ s) # stringify_properties kvs)"

text \<open>
  \<open>Utilities.formatString\<close>, for the only directive the client uses: each \<open>%s\<close> of
  the template is replaced by the next argument, which is not scanned again.
\<close>

fun formatString :: "string \<Rightarrow> string list \<Rightarrow> string" where
  "formatString [] args = []"
| "formatString (c # d # template) (a # args) =
     (if c = CHR ''%'' \<and> d = CHR ''s'' then a @ formatString template args
      else c # formatString (d # template) (a # args))"
| "formatString (c # template) args = c # formatString template args"

text \<open>
  The fetch primitive. The options object of a request, the response object, and the
  failures a call of the runtime can raise.
\<close>

record options =
  "method" :: string
  payload :: "string option"
  headers :: "(string \<times> string) list"
  muteHttpExceptions :: bool

record HTTPResponse =
  getResponseCode :: nat
  getContentText :: string

datatype error =
    FetchFailure string
  | HttpException nat
  | SyntaxError string

text \<open>
  The requests issued so far, oldest first. The remote side is a function of the
  history, the URL and the options: it answers with a response or the network fails.
  \<open>JSON.parse\<close> is the runtime's: it returns the decoded value or raises.
\<close>

type_synonym log = "(string \<times> options) list"

record runtime =
  server :: "log \<Rightarrow> string \<Rightarrow> options \<Rightarrow> error + HTTPResponse"
  JSON_parse :: "string \<Rightarrow> error + jsval"

text \<open>
  \<open>UrlFetchApp.fetch\<close>, from its documentation: a response whose code indicates
  failure is raised as an exception unless \<open>muteHttpExceptions\<close> is set.
\<close>

definition indicates_failure :: "nat \<Rightarrow> bool" where
  "indicates_failure code = (code < 200 \<or> 300 \<le> code)"

definition UrlFetchApp_fetch ::
  "runtime \<Rightarrow> string \<Rightarrow> options \<Rightarrow> log \<Rightarrow> (error + HTTPResponse) \<times> log" where
  "UrlFetchApp_fetch rt url opts sent =
     ((case server rt sent url opts of
         Inl e \<Rightarrow> Inl e
       | Inr response \<Rightarrow>
           if indicates_failure (getResponseCode response) \<and> \<not> muteHttpExceptions opts
           then Inl (HttpException (getResponseCode response))
           else Inr response),
      sent @ [(url, opts)])"

section \<open>Client.ts: the HTTP transport\<close>

record Client =
  token :: string

definition Client_new :: "string \<Rightarrow> Client" where
  "Client_new t = \<lparr>Client.token = t\<rparr>"

text \<open>Each method issues one request and returns the text of the response.\<close>

definition Client_get :: "runtime \<Rightarrow> Client \<Rightarrow> string \<Rightarrow> log \<Rightarrow> (error + string) \<times> log" where
  "Client_get rt this url sent =
     (let hdrs = [(''X-USER-TOKEN'', Client.token this)];
          opts = \<lparr>method = ''get'', payload = None, headers = hdrs,
                  muteHttpExceptions = True\<rparr>;
          (response, sent') = UrlFetchApp_fetch rt url opts sent
      in (map_sum id getContentText response, sent'))"

definition Client_post ::
  "runtime \<Rightarrow> Client \<Rightarrow> string \<Rightarrow> jsval \<Rightarrow> log \<Rightarrow> (error + string) \<times> log" where
  "Client_post rt this url pl sent =
     (let hdrs = [(''X-USER-TOKEN'', Client.token this),
                  (''Content-Type'', ''application/json'')];
          opts = \<lparr>method = ''post'', payload = JSON_stringify pl, headers = hdrs,
                  muteHttpExceptions = True\<rparr>;
          (response, sent') = UrlFetchApp_fetch rt url opts sent
      in (map_sum id getContentText response, sent'))"

definition Client_put ::
  "runtime \<Rightarrow> Client \<Rightarrow> string \<Rightarrow> jsval \<Rightarrow> log \<Rightarrow> (error + string) \<times> log" where
  "Client_put rt this url pl sent =
     (let hdrs = [(''X-USER-TOKEN'', Client.token this),
                  (''Content-Type'', ''application/json'')];
          opts = \<lparr>method = ''put'', payload = JSON_stringify pl, headers = hdrs,
                  muteHttpExceptions = True\<rparr>;
          (response, sent') = UrlFetchApp_fetch rt url opts sent
      in (map_sum id getContentText response, sent'))"

definition Client_delete :: "runtime \<Rightarrow> Client \<Rightarrow> string \<Rightarrow> log \<Rightarrow> (error + string) \<times> log" where
  "Client_delete rt this url sent =
     (let hdrs = [(''X-USER-TOKEN'', Client.token this)];
          opts = \<lparr>method = ''delete'', payload = None, headers = hdrs,
                  muteHttpExceptions = True\<rparr>;
          (response, sent') = UrlFetchApp_fetch rt url opts sent
      in (map_sum id getContentText response, sent'))"

section \<open>Pixela.ts: the endpoint client\<close>

record Pixela =
  baseURL :: string
  apiVersion :: string
  username :: string
  token :: string
  client :: Client

definition create :: "string \<Rightarrow> string \<Rightarrow> Pixela" where
  "create u t =
     \<lparr>baseURL = ''https://pixe.la'', apiVersion = ''v1'', username = u,
      Pixela.token = t, client = Client_new t\<rparr>"

definition setToken :: "string \<Rightarrow> Pixela \<Rightarrow> Pixela" where
  "setToken t this = this\<lparr>Pixela.token := t, client := Client_new t\<rparr>"

subsection \<open>URL construction\<close>

definition generateUserURL :: "Pixela \<Rightarrow> string" where
  "generateUserURL this = formatString ''%s/%s/users'' [baseURL this, apiVersion this]"

definition generateUserIDURL :: "Pixela \<Rightarrow> string" where
  "generateUserIDURL this =
     formatString ''%s/%s/users/%s'' [baseURL this, apiVersion this, username this]"

definition generateGraphsURL :: "Pixela \<Rightarrow> string" where
  "generateGraphsURL this =
     formatString ''%s/%s/users/%s/graphs'' [baseURL this, apiVersion this, username this]"

definition generateGraphIDURL :: "Pixela \<Rightarrow> string \<Rightarrow> string" where
  "generateGraphIDURL this graphID =
     formatString ''%s/%s/users/%s/graphs/%s''
       [baseURL this, apiVersion this, username this, graphID]"

definition generateDetailURL :: "Pixela \<Rightarrow> string \<Rightarrow> string \<Rightarrow> string" where
  "generateDetailURL this graphID detailType =
     formatString ''%s/%s/users/%s/graphs/%s/%s''
       [baseURL this, apiVersion this, username this, graphID, detailType]"

definition generateWebhookURL :: "Pixela \<Rightarrow> string" where
  "generateWebhookURL this =
     formatString ''%s/%s/users/%s/webhooks'' [baseURL this, apiVersion this, username this]"

definition generateWebhookDetailURL :: "Pixela \<Rightarrow> string \<Rightarrow> string" where
  "generateWebhookDetailURL this webhookHash =
     formatString ''%s/%s/users/%s/webhooks/%s''
       [baseURL this, apiVersion this, username this, webhookHash]"

text \<open>
  \<open>buildQuery\<close>: the loop over the properties of \<open>parameters\<close> pushes one
  \<open>key=value\<close> string for each property that passes the test \<open>!= undefined\<close>, which
  \<open>undefined\<close> and \<open>null\<close> both fail.
\<close>

definition buildQuery_step :: "string list \<Rightarrow> string \<times> jsval \<Rightarrow> string list" where
  "buildQuery_step params kv =
     (case kv of (key, v) \<Rightarrow>
        if \<not> (v = JUndefined \<or> v = JNull) then params @ [key @ ''='' @ ToString v]
        else params)"

definition buildQuery :: "string \<Rightarrow> (string \<times> jsval) list \<Rightarrow> string" where
  "buildQuery url parameters =
     (let params = foldl buildQuery_step [] parameters
      in if length params = 0 then url else url @ ''?'' @ join ''&'' params)"

subsection \<open>Payload construction\<close>

definition createGraph_payload ::
  "string \<Rightarrow> string \<Rightarrow> string \<Rightarrow> string \<Rightarrow> string \<Rightarrow> string option \<Rightarrow> string option
     \<Rightarrow> (string \<times> jsval) list" where
  "createGraph_payload graphID graphName unit type color timezone selfSufficient =
     (let pl = [(''id'', JStr graphID), (''name'', JStr graphName), (''unit'', JStr unit),
                (''type'', JStr type), (''color'', JStr color)];
          pl = (if of_optional timezone \<noteq> JUndefined
                then obj_set pl ''timezone'' (of_optional timezone) else pl);
          pl = (if of_optional selfSufficient \<noteq> JUndefined
                then obj_set pl ''selfSufficient'' (of_optional selfSufficient) else pl)
      in pl)"

definition createPixel_payload :: "string \<Rightarrow> int \<Rightarrow> jsval \<Rightarrow> (string \<times> jsval) list" where
  "createPixel_payload dateStr quantity optionalData =
     (let pl = [(''date'', JStr dateStr), (''quantity'', JStr (Number_toString quantity))];
          pl = (if optionalData \<noteq> JUndefined
                then obj_set pl ''optionalData'' (of_optional (JSON_stringify optionalData))
                else pl)
      in pl)"

definition updatePixel_payload :: "int \<Rightarrow> jsval \<Rightarrow> (string \<times> jsval) list" where
  "updatePixel_payload quantity optionalData =
     (let pl = [(''quantity'', JStr (Number_toString quantity))];
          pl = (if optionalData \<noteq> JUndefined
                then obj_set pl ''optionalData'' (of_optional (JSON_stringify optionalData))
                else pl)
      in pl)"

definition elements :: "string list" where
  "elements = [''graphName'', ''unit'', ''type'', ''color'', ''timezone'', ''selfSufficient'']"

definition updateGraph_updatePayload :: "(string \<times> jsval) list \<Rightarrow> (string \<times> jsval) list" where
  "updateGraph_updatePayload pl =
     foldl (\<lambda>updatePayload elem.
              if obj_get pl elem \<noteq> JUndefined then obj_set updatePayload elem (obj_get pl elem)
              else updatePayload)
       [] elements"

subsection \<open>The operations\<close>

text \<open>
  A failure raised by the transport leaves the method at once; otherwise the text of
  the response is decoded, and a failure of the decoder leaves the method likewise.
\<close>

definition and_then :: "error + 'a \<Rightarrow> ('a \<Rightarrow> error + 'b) \<Rightarrow> error + 'b" where
  "and_then r f = (case r of Inl e \<Rightarrow> Inl e | Inr x \<Rightarrow> f x)"

definition createUser :: "runtime \<Rightarrow> Pixela \<Rightarrow> string \<Rightarrow> string \<Rightarrow> log \<Rightarrow> (error + jsval) \<times> log" where
  "createUser rt this agreeTermsOfService notMinor sent =
     (let requestURL = generateUserURL this;
          pl = [(''username'', JStr (username this)), (''token'', JStr (Pixela.token this)),
                (''agreeTermsOfService'', JStr agreeTermsOfService),
                (''notMinor'', JStr notMinor)];
          (responseBodyText, sent') = Client_post rt (client this) requestURL (JObj pl) sent;
          response = and_then responseBodyText (JSON_parse rt)
      in (response, sent'))"

definition updateUser :: "runtime \<Rightarrow> Pixela \<Rightarrow> string \<Rightarrow> log \<Rightarrow> (error + jsval) \<times> log" where
  "updateUser rt this newToken sent =
     (let requestURL = generateUserIDURL this;
          pl = [(''newToken'', JStr newToken)];
          (responseBodyText, sent') = Client_put rt (client this) requestURL (JObj pl) sent;
          response = and_then responseBodyText (JSON_parse rt)
      in (response, sent'))"

definition deleteUser :: "runtime \<Rightarrow> Pixela \<Rightarrow> log \<Rightarrow> (error + jsval) \<times> log" where
  "deleteUser rt this sent =
     (let requestURL = generateUserIDURL this;
          (responseBodyText, sent') = Client_delete rt (client this) requestURL sent;
          response = and_then responseBodyText (JSON_parse rt)
      in (response, sent'))"

definition createGraph :: "runtime \<Rightarrow> Pixela \<Rightarrow> string \<Rightarrow> string \<Rightarrow> string \<Rightarrow> string \<Rightarrow> string \<Rightarrow> string option \<Rightarrow> string option \<Rightarrow> log \<Rightarrow> (error + jsval) \<times> log" where
  "createGraph rt this graphID graphName unit type color timezone selfSufficient sent =
     (let requestURL = generateGraphsURL this;
          pl = createGraph_payload graphID graphName unit type color timezone selfSufficient;
          (responseBodyText, sent') = Client_post rt (client this) requestURL (JObj pl) sent;
          response = and_then responseBodyText (JSON_parse rt)
      in (response, sent'))"

definition getGraph :: "runtime \<Rightarrow> Pixela \<Rightarrow> log \<Rightarrow> (error + jsval) \<times> log" where
  "getGraph rt this sent =
     (let requestURL = generateGraphsURL this;
          (responseBodyText, sent') = Client_get rt (client this) requestURL sent;
          response = and_then responseBodyText (JSON_parse rt)
      in (response, sent'))"

text \<open>\<open>getSvg\<close> returns the text of the response as it is.\<close>

definition getSvg ::
  "runtime \<Rightarrow> Pixela \<Rightarrow> string \<Rightarrow> string option \<Rightarrow> string option \<Rightarrow> log
     \<Rightarrow> (error + string) \<times> log" where
  "getSvg rt this graphID dateStr mode sent =
     (let requestURL = generateGraphIDURL this graphID;
          requestURL = buildQuery requestURL
                         [(''date'', of_optional dateStr), (''mode'', of_optional mode)];
          (responseBodyText, sent') = Client_get rt (client this) requestURL sent
      in (responseBodyText, sent'))"

text \<open>
  \<open>updateGraph\<close> builds \<open>updatePayload\<close> from the allow-list and hands \<open>payload\<close>
  to the transport.
\<close>

definition updateGraph :: "runtime \<Rightarrow> Pixela \<Rightarrow> string \<Rightarrow> (string \<times> jsval) list \<Rightarrow> log \<Rightarrow> (error + jsval) \<times> log" where
  "updateGraph rt this graphID pl sent =
     (let requestURL = generateGraphIDURL this graphID;
          updatePayload = updateGraph_updatePayload pl;
          (responseBodyText, sent') = Client_put rt (client this) requestURL (JObj pl) sent;
          response = and_then responseBodyText (JSON_parse rt)
      in (response, sent'))"

definition deleteGraph :: "runtime \<Rightarrow> Pixela \<Rightarrow> string \<Rightarrow> log \<Rightarrow> (error + jsval) \<times> log" where
  "deleteGraph rt this graphID sent =
     (let requestURL = generateGraphIDURL this graphID;
          (responseBodyText, sent') = Client_delete rt (client this) requestURL sent;
          response = and_then responseBodyText (JSON_parse rt)
      in (response, sent'))"

definition getGraphPixelsDate ::
  "runtime \<Rightarrow> Pixela \<Rightarrow> string \<Rightarrow> string option \<Rightarrow> string option \<Rightarrow> log
     \<Rightarrow> (error + jsval) \<times> log" where
  "getGraphPixelsDate rt this graphID fromDateStr toDateStr sent =
     (let requestURL = generateDetailURL this graphID ''pixels'';
          requestURL = buildQuery requestURL
                         [(''from'', of_optional fromDateStr), (''to'', of_optional toDateStr)];
          (responseBodyText, sent') = Client_get rt (client this) requestURL sent;
          response = and_then responseBodyText (JSON_parse rt)
      in (response, sent'))"

definition createPixel :: "runtime \<Rightarrow> Pixela \<Rightarrow> string \<Rightarrow> string \<Rightarrow> int \<Rightarrow> jsval \<Rightarrow> log \<Rightarrow> (error + jsval) \<times> log" where
  "createPixel rt this graphID dateStr quantity optionalData sent =
     (let requestURL = generateGraphIDURL this graphID;
          pl = createPixel_payload dateStr quantity optionalData;
          (responseBodyText, sent') = Client_post rt (client this) requestURL (JObj pl) sent;
          response = and_then responseBodyText (JSON_parse rt)
      in (response, sent'))"

definition getPixel :: "runtime \<Rightarrow> Pixela \<Rightarrow> string \<Rightarrow> string \<Rightarrow> log \<Rightarrow> (error + jsval) \<times> log" where
  "getPixel rt this graphID dateStr sent =
     (let requestURL = generateDetailURL this graphID dateStr;
          (responseBodyText, sent') = Client_get rt (client this) requestURL sent;
          response = and_then responseBodyText (JSON_parse rt)
      in (response, sent'))"

definition updatePixel :: "runtime \<Rightarrow> Pixela \<Rightarrow> string \<Rightarrow> string \<Rightarrow> int \<Rightarrow> jsval \<Rightarrow> log \<Rightarrow> (error + jsval) \<times> log" where
  "updatePixel rt this graphID dateStr quantity optionalData sent =
     (let requestURL = generateDetailURL this graphID dateStr;
          pl = updatePixel_payload quantity optionalData;
          (responseBodyText, sent') = Client_put rt (client this) requestURL (JObj pl) sent;
          response = and_then responseBodyText (JSON_parse rt)
      in (response, sent'))"

definition incPixel :: "runtime \<Rightarrow> Pixela \<Rightarrow> string \<Rightarrow> log \<Rightarrow> (error + jsval) \<times> log" where
  "incPixel rt this graphID sent =
     (let requestURL = generateDetailURL this graphID ''increment'';
          (responseBodyText, sent') = Client_put rt (client this) requestURL JUndefined sent;
          response = and_then responseBodyText (JSON_parse rt)
      in (response, sent'))"

definition decPixel :: "runtime \<Rightarrow> Pixela \<Rightarrow> string \<Rightarrow> log \<Rightarrow> (error + jsval) \<times> log" where
  "decPixel rt this graphID sent =
     (let requestURL = generateDetailURL this graphID ''decrement'';
          (responseBodyText, sent') = Client_put rt (client this) requestURL JUndefined sent;
          response = and_then responseBodyText (JSON_parse rt)
      in (response, sent'))"

definition deletePixel :: "runtime \<Rightarrow> Pixela \<Rightarrow> string \<Rightarrow> string \<Rightarrow> log \<Rightarrow> (error + jsval) \<times> log" where
  "deletePixel rt this graphID dateStr sent =
     (let requestURL = generateDetailURL this graphID dateStr;
          (responseBodyText, sent') = Client_delete rt (client this) requestURL sent;
          response = and_then responseBodyText (JSON_parse rt)
      in (response, sent'))"

definition createWebhook :: "runtime \<Rightarrow> Pixela \<Rightarrow> string \<Rightarrow> string \<Rightarrow> log \<Rightarrow> (error + jsval) \<times> log" where
  "createWebhook rt this graphID webhookType sent =
     (let requestURL = generateWebhookURL this;
          pl = [(''graphID'', JStr graphID), (''type'', JStr webhookType)];
          (responseBodyText, sent') = Client_post rt (client this) requestURL (JObj pl) sent;
          response = and_then responseBodyText (JSON_parse rt)
      in (response, sent'))"

definition getWebhook :: "runtime \<Rightarrow> Pixela \<Rightarrow> log \<Rightarrow> (error + jsval) \<times> log" where
  "getWebhook rt this sent =
     (let requestURL = generateWebhookURL this;
          (responseBodyText, sent') = Client_get rt (client this) requestURL sent;
          response = and_then responseBodyText (JSON_parse rt)
      in (response, sent'))"

definition invokeWebhook :: "runtime \<Rightarrow> Pixela \<Rightarrow> string \<Rightarrow> log \<Rightarrow> (error + jsval) \<times> log" where
  "invokeWebhook rt this webhookHash sent =
     (let requestURL = generateWebhookDetailURL this webhookHash;
          (responseBodyText, sent') = Client_post rt (client this) requestURL JUndefined sent;
          response = and_then responseBodyText (JSON_parse rt)
      in (response, sent'))"

definition deleteWebhook :: "runtime \<Rightarrow> Pixela \<Rightarrow> string \<Rightarrow> log \<Rightarrow> (error + jsval) \<times> log" where
  "deleteWebhook rt this webhookHash sent =
     (let requestURL = generateWebhookDetailURL this webhookHash;
          (responseBodyText, sent') = Client_delete rt (client this) requestURL sent;
          response = and_then responseBodyText (JSON_parse rt)
      in (response, sent'))"

subsection \<open>The public surface as a transition system\<close>

text \<open>
  One constructor for each public method of the class. A call takes the instance and
  the requests issued so far to what the method returns or raises, the instance after
  the call, and the requests issued by then.
\<close>

datatype call =
    SetToken string
  | CreateUser string string
  | UpdateUser string
  | DeleteUser
  | CreateGraph string string string string string "string option" "string option"
  | GetGraph
  | GetSvg string "string option" "string option"
  | UpdateGraph string "(string \<times> jsval) list"
  | DeleteGraph string
  | GetGraphPixelsDate string "string option" "string option"
  | CreatePixel string string int jsval
  | GetPixel string string
  | UpdatePixel string string int jsval
  | IncPixel string
  | DecPixel string
  | DeletePixel string string
  | CreateWebhook string string
  | GetWebhook
  | InvokeWebhook string
  | DeleteWebhook string

datatype returned = Void | Text string | Json jsval

definition as_json :: "(error + jsval) \<times> log \<Rightarrow> Pixela \<Rightarrow> (error + returned) \<times> Pixela \<times> log" where
  "as_json r this = (map_sum id Json (fst r), this, snd r)"

definition as_text :: "(error + string) \<times> log \<Rightarrow> Pixela \<Rightarrow> (error + returned) \<times> Pixela \<times> log" where
  "as_text r this = (map_sum id Text (fst r), this, snd r)"

fun invoke :: "runtime \<Rightarrow> call \<Rightarrow> Pixela \<Rightarrow> log \<Rightarrow> (error + returned) \<times> Pixela \<times> log" where
  "invoke rt (SetToken t) this sent = (Inr Void, setToken t this, sent)"
| "invoke rt (CreateUser a n) this sent = as_json (createUser rt this a n sent) this"
| "invoke rt (UpdateUser t) this sent = as_json (updateUser rt this t sent) this"
| "invoke rt DeleteUser this sent = as_json (deleteUser rt this sent) this"
| "invoke rt (CreateGraph g n u ty c tz ss) this sent =
     as_json (createGraph rt this g n u ty c tz ss sent) this"
| "invoke rt GetGraph this sent = as_json (getGraph rt this sent) this"
| "invoke rt (GetSvg g d m) this sent = as_text (getSvg rt this g d m sent) this"
| "invoke rt (UpdateGraph g pl) this sent = as_json (updateGraph rt this g pl sent) this"
| "invoke rt (DeleteGraph g) this sent = as_json (deleteGraph rt this g sent) this"
| "invoke rt (GetGraphPixelsDate g f t) this sent =
     as_json (getGraphPixelsDate rt this g f t sent) this"
| "invoke rt (CreatePixel g d q od) this sent = as_json (createPixel rt this g d q od sent) this"
| "invoke rt (GetPixel g d) this sent = as_json (getPixel rt this g d sent) this"
| "invoke rt (UpdatePixel g d q od) this sent = as_json (updatePixel rt this g d q od sent) this"
| "invoke rt (IncPixel g) this sent = as_json (incPixel rt this g sent) this"
| "invoke rt (DecPixel g) this sent = as_json (decPixel rt this g sent) this"
| "invoke rt (DeletePixel g d) this sent = as_json (deletePixel rt this g d sent) this"
| "invoke rt (CreateWebhook g ty) this sent = as_json (createWebhook rt this g ty sent) this"
| "invoke rt GetWebhook this sent = as_json (getWebhook rt this sent) this"
| "invoke rt (InvokeWebhook h) this sent = as_json (invokeWebhook rt this h sent) this"
| "invoke rt (DeleteWebhook h) this sent = as_json (deleteWebhook rt this h sent) this"

text \<open>A sequence of calls, each run whatever the one before returned or raised.\<close>

fun invoke_all :: "runtime \<Rightarrow> call list \<Rightarrow> Pixela \<Rightarrow> log \<Rightarrow> Pixela \<times> log" where
  "invoke_all rt [] this sent = (this, sent)"
| "invoke_all rt (c # cs) this sent =
     (case invoke rt c this sent of (r, this', sent') \<Rightarrow> invoke_all rt cs this' sent')"

section \<open>Observations and example runtimes\<close>

text \<open>
  What is read off a logged request: the values of its \<open>X-USER-TOKEN\<close> headers, and
  its verb and URL. The calls that decode the response are all but \<open>setToken\<close>, which
  issues no request, and \<open>getSvg\<close>, which returns the text.
\<close>

definition auth_tokens :: "string \<times> options \<Rightarrow> string list" where
  "auth_tokens r = map snd (filter (\<lambda>h. fst h = ''X-USER-TOKEN'') (headers (snd r)))"

definition request_line :: "string \<times> options \<Rightarrow> string \<times> string" where
  "request_line r = (method (snd r), fst r)"

fun decodes :: "call \<Rightarrow> bool" where
  "decodes (SetToken t) = False"
| "decodes (GetSvg g d m) = False"
| "decodes c = True"

text \<open>
  A runtime for running the operations on examples: the remote side answers every
  request with the same status and body, and the decoder knows that body only.
\<close>

definition canned :: "nat \<Rightarrow> string \<Rightarrow> error + jsval \<Rightarrow> runtime" where
  "canned code body decoded =
     \<lparr>server = (\<lambda>sent url opts. Inr \<lparr>getResponseCode = code, getContentText = body\<rparr>),
      JSON_parse = (\<lambda>s. if s = body then decoded else Inl (SyntaxError s))\<rparr>"

section \<open>The transport and the operations, unfolded\<close>

lemma fetch_muted:
  "muteHttpExceptions opts \<Longrightarrow>
   UrlFetchApp_fetch rt url opts sent = (server rt sent url opts, sent @ [(url, opts)])"
  by (simp add: UrlFetchApp_fetch_def split: sum.splits)

lemma Client_get_eq:
  "Client_get rt c url sent =
     (let opts = \<lparr>method = ''get'', payload = None,
                  headers = [(''X-USER-TOKEN'', Client.token c)], muteHttpExceptions = True\<rparr>
      in (map_sum id getContentText (server rt sent url opts), sent @ [(url, opts)]))"
  by (simp add: Client_get_def fetch_muted Let_def)

lemma Client_delete_eq:
  "Client_delete rt c url sent =
     (let opts = \<lparr>method = ''delete'', payload = None,
                  headers = [(''X-USER-TOKEN'', Client.token c)], muteHttpExceptions = True\<rparr>
      in (map_sum id getContentText (server rt sent url opts), sent @ [(url, opts)]))"
  by (simp add: Client_delete_def fetch_muted Let_def)

lemma Client_post_eq:
  "Client_post rt c url pl sent =
     (let opts = \<lparr>method = ''post'', payload = JSON_stringify pl,
                  headers = [(''X-USER-TOKEN'', Client.token c),
                             (''Content-Type'', ''application/json'')],
                  muteHttpExceptions = True\<rparr>
      in (map_sum id getContentText (server rt sent url opts), sent @ [(url, opts)]))"
  by (simp add: Client_post_def fetch_muted Let_def)

lemma Client_put_eq:
  "Client_put rt c url pl sent =
     (let opts = \<lparr>method = ''put'', payload = JSON_stringify pl,
                  headers = [(''X-USER-TOKEN'', Client.token c),
                             (''Content-Type'', ''application/json'')],
                  muteHttpExceptions = True\<rparr>
      in (map_sum id getContentText (server rt sent url opts), sent @ [(url, opts)]))"
  by (simp add: Client_put_def fetch_muted Let_def)

lemmas transport_eqs = Client_get_eq Client_post_eq Client_put_eq Client_delete_eq

lemmas operation_defs =
  createUser_def updateUser_def deleteUser_def createGraph_def getGraph_def getSvg_def
  updateGraph_def deleteGraph_def getGraphPixelsDate_def createPixel_def getPixel_def
  updatePixel_def incPixel_def decPixel_def deletePixel_def createWebhook_def getWebhook_def
  invokeWebhook_def deleteWebhook_def

lemma invoke_instance:
  "fst (snd (invoke rt c this sent)) = (case c of SetToken t \<Rightarrow> setToken t this | _ \<Rightarrow> this)"
  by (cases c) (simp_all add: as_json_def as_text_def)

lemma invoke_requests:
  "\<exists>new. snd (snd (invoke rt c this sent)) = sent @ new \<and>
         (\<forall>r\<in>set new. auth_tokens r = [Client.token (client this)])"
  by (cases c)
    (simp_all add: as_json_def as_text_def operation_defs transport_eqs Let_def auth_tokens_def)

lemma setToken_frame:
  "baseURL (setToken t this) = baseURL this"
  "apiVersion (setToken t this) = apiVersion this"
  "username (setToken t this) = username this"
  by (simp_all add: setToken_def)

lemma invoke_frame:
  "baseURL (fst (snd (invoke rt c this sent))) = baseURL this"
  "apiVersion (fst (snd (invoke rt c this sent))) = apiVersion this"
  "username (fst (snd (invoke rt c this sent))) = username this"
  by (simp_all add: invoke_instance setToken_frame split: call.splits)

lemma invoke_all_frame:
  "baseURL (fst (invoke_all rt cs this sent)) = baseURL this \<and>
   apiVersion (fst (invoke_all rt cs this sent)) = apiVersion this \<and>
   username (fst (invoke_all rt cs this sent)) = username this"
proof (induction cs arbitrary: this sent)
  case Nil
  show ?case by simp
next
  case (Cons c cs)
  obtain r this' sent' where step: "invoke rt c this sent = (r, this', sent')"
    by (cases "invoke rt c this sent") auto
  have "this' = fst (snd (invoke rt c this sent))"
    by (simp add: step)
  then have "baseURL this' = baseURL this" "apiVersion this' = apiVersion this"
      "username this' = username this"
    by (simp_all add: invoke_frame)
  with Cons.IH [of this' sent'] show ?case
    by (simp add: step)
qed

lemma invoke_invariant:
  "Client.token (client this) = Pixela.token this \<Longrightarrow>
   Client.token (client (fst (snd (invoke rt c this sent)))) =
     Pixela.token (fst (snd (invoke rt c this sent)))"
  by (simp add: invoke_instance setToken_def Client_new_def split: call.splits)

lemma invoke_all_invariant:
  "Client.token (client this) = Pixela.token this \<Longrightarrow>
   Client.token (client (fst (invoke_all rt cs this sent))) =
     Pixela.token (fst (invoke_all rt cs this sent))"
proof (induction cs arbitrary: this sent)
  case Nil
  then show ?case by simp
next
  case (Cons c cs)
  obtain r this' sent' where step: "invoke rt c this sent = (r, this', sent')"
    by (cases "invoke rt c this sent") auto
  have "this' = fst (snd (invoke rt c this sent))"
    by (simp add: step)
  with Cons.prems have "Client.token (client this') = Pixela.token this'"
    by (simp add: invoke_invariant)
  from Cons.IH [OF this, of sent'] show ?case
    by (simp add: step)
qed

lemma invoke_all_requests:
  "\<forall>t. SetToken t \<notin> set cs \<Longrightarrow>
   \<exists>new. snd (invoke_all rt cs this sent) = sent @ new \<and>
         (\<forall>r\<in>set new. auth_tokens r = [Client.token (client this)])"
proof (induction cs arbitrary: sent)
  case Nil
  show ?case by simp
next
  case (Cons c cs)
  obtain r this' sent' where step: "invoke rt c this sent = (r, this', sent')"
    by (cases "invoke rt c this sent") auto
  from Cons.prems have noset: "\<forall>t. c \<noteq> SetToken t" and rest: "\<forall>t. SetToken t \<notin> set cs"
    by auto
  have "this' = fst (snd (invoke rt c this sent))"
    by (simp add: step)
  with noset have same: "this' = this"
    by (cases c) (simp_all add: as_json_def as_text_def)
  obtain new1 where n1: "sent' = sent @ new1"
      "\<forall>r\<in>set new1. auth_tokens r = [Client.token (client this)]"
    using invoke_requests [of rt c this sent] by (auto simp: step)
  obtain new2 where n2: "snd (invoke_all rt cs this sent') = sent' @ new2"
      "\<forall>r\<in>set new2. auth_tokens r = [Client.token (client this)]"
    using Cons.IH [OF rest, of sent'] by auto
  have "snd (invoke_all rt (c # cs) this sent) = snd (invoke_all rt cs this sent')"
    by (simp add: step same)
  with n2(1) n1(1) have "snd (invoke_all rt (c # cs) this sent) = sent @ (new1 @ new2)"
    by simp
  moreover have "\<forall>r\<in>set (new1 @ new2). auth_tokens r = [Client.token (client this)]"
    using n1(2) n2(2) by auto
  ultimately show ?case by blast
qed

lemma graph_url:
  "generateGraphIDURL this g =
     baseURL this @ ''/'' @ apiVersion this @ ''/users/'' @ username this @ ''/graphs/'' @ g"
  by (simp add: generateGraphIDURL_def)

lemma detail_url:
  "generateDetailURL this g d =
     baseURL this @ ''/'' @ apiVersion this @ ''/users/'' @ username this @ ''/graphs/'' @ g
       @ ''/'' @ d"
  by (simp add: generateDetailURL_def)

lemma webhook_detail_url:
  "generateWebhookDetailURL this h =
     baseURL this @ ''/'' @ apiVersion this @ ''/users/'' @ username this @ ''/webhooks/'' @ h"
  by (simp add: generateWebhookDetailURL_def)

lemma reachable_fields:
  "baseURL (fst (invoke_all rt cs (create u t) sent)) = ''https://pixe.la''"
  "apiVersion (fst (invoke_all rt cs (create u t) sent)) = ''v1''"
  "username (fst (invoke_all rt cs (create u t) sent)) = u"
  using invoke_all_frame [of rt cs "create u t" sent] by (simp_all add: create_def)

lemma buildQuery_loop:
  "foldl buildQuery_step acc ps =
     acc @ map (\<lambda>kv. fst kv @ ''='' @ ToString (snd kv))
             (filter (\<lambda>kv. snd kv \<noteq> JUndefined \<and> snd kv \<noteq> JNull) ps)"
  by (induction ps arbitrary: acc) (auto simp: buildQuery_step_def)

lemma stringify_undefined: "(JSON_stringify v = None) = (v = JUndefined)"
  by (cases v) simp_all

lemma invoke_decodes:
  "\<forall>url opts. server rt sent url opts = Inr r \<Longrightarrow> decodes c \<Longrightarrow>
   fst (invoke rt c this sent) = map_sum id Json (JSON_parse rt (getContentText r))"
  by (cases c)
    (simp_all add: as_json_def operation_defs transport_eqs Let_def and_then_def)

section \<open>The allow-list of updateGraph\<close>

text \<open>
  C1. \<open>updateGraph\<close> is specified to forward only the fields of the payload named in
  its allow-list. The method does collect those fields, into \<open>updatePayload\<close>, and
  then hands the payload it was given to the transport: for the payload
  \<open>{graphName: "x", bogus: "y"}\<close> the filtered object holds \<open>graphName\<close> alone, and the
  body of the request that is sent holds \<open>bogus\<close> as well.
\<close>

theorem updateGraph_forwards_payload_unfiltered:
  \<open>updateGraph_updatePayload [(''graphName'', JStr ''x''), (''bogus'', JStr ''y'')] =
      [(''graphName'', JStr ''x'')] \<and>
   snd (updateGraph rt (create ''u'' ''t'') ''g''
          [(''graphName'', JStr ''x''), (''bogus'', JStr ''y'')] []) =
     [(''https://pixe.la/v1/users/u/graphs/g'',
       \<lparr>method = ''put'', payload = Some ''{"graphName":"x","bogus":"y"}'',
        headers = [(''X-USER-TOKEN'', ''t''), (''Content-Type'', ''application/json'')],
        muteHttpExceptions = True\<rparr>)]\<close>
  by (simp add: updateGraph_updatePayload_def elements_def obj_get_def updateGraph_def
      Client_put_eq Let_def graph_url create_def Client_new_def quote_def escape_char_def)

section \<open>The URLs of the pixel operations\<close>

text \<open>
  \<open>createPixel\<close> posts to the URL of the graph, which does not end with the date.
\<close>

theorem createPixel_url_counterexample:
  "map request_line
     (snd (createPixel (canned 200 ''{}'' (Inr (JObj []))) (create ''u'' ''t'')
             ''g'' ''20210101'' 5 JUndefined [])) =
     [(''post'', ''https://pixe.la/v1/users/u/graphs/g'')] \<and>
   ''https://pixe.la/v1/users/u/graphs/g'' \<noteq> ''https://pixe.la/v1/users/u/graphs/g/20210101''"
  by (simp add: createPixel_def Client_post_eq Let_def graph_url create_def request_line_def)

text \<open>
  C2, amended. On an instance made by \<open>create u t\<close>, after any calls, \<open>getPixel\<close>,
  \<open>updatePixel\<close> and \<open>deletePixel\<close> issue their request (GET, PUT, DELETE) to
  \<open>https://pixe.la/v1/users/u/graphs/g/d\<close> for graph \<open>g\<close> and date \<open>d\<close>; \<open>incPixel\<close>
  and \<open>decPixel\<close> issue a PUT to the same prefix followed by \<open>increment\<close> and
  \<open>decrement\<close>; \<open>createPixel\<close> issues a POST to \<open>https://pixe.la/v1/users/u/graphs/g\<close>
  and carries the date in the body, under the key \<open>date\<close>.
\<close>

theorem pixel_operation_urls:
  "(let this = fst (invoke_all rt cs (create u t) sent0);
        graph = ''https://pixe.la/v1/users/'' @ u @ ''/graphs/'' @ g
    in map request_line (snd (getPixel rt this g d sent)) =
         map request_line sent @ [(''get'', graph @ ''/'' @ d)] \<and>
       map request_line (snd (updatePixel rt this g d q od sent)) =
         map request_line sent @ [(''put'', graph @ ''/'' @ d)] \<and>
       map request_line (snd (deletePixel rt this g d sent)) =
         map request_line sent @ [(''delete'', graph @ ''/'' @ d)] \<and>
       map request_line (snd (incPixel rt this g sent)) =
         map request_line sent @ [(''put'', graph @ ''/increment'')] \<and>
       map request_line (snd (decPixel rt this g sent)) =
         map request_line sent @ [(''put'', graph @ ''/decrement'')] \<and>
       map request_line (snd (createPixel rt this g d q od sent)) =
         map request_line sent @ [(''post'', graph)] \<and>
       payload (snd (last (snd (createPixel rt this g d q od sent)))) =
         JSON_stringify (JObj (createPixel_payload d q od)) \<and>
       obj_get (createPixel_payload d q od) ''date'' = JStr d)"
  by (simp add: Let_def getPixel_def updatePixel_def deletePixel_def incPixel_def decPixel_def
      createPixel_def transport_eqs graph_url detail_url reachable_fields request_line_def
      createPixel_payload_def obj_get_def)

section \<open>Headers and bodies of the transport\<close>

text \<open>The request of \<open>delete\<close> has no \<open>Content-Type\<close> header and no body.\<close>

theorem delete_content_type_counterexample:
  "map_of (headers (snd (last (snd
     (Client_delete (canned 200 ''{}'' (Inr (JObj []))) (Client_new ''t'')
        ''https://pixe.la/v1/users/u'' []))))) ''Content-Type'' = None \<and>
   payload (snd (last (snd
     (Client_delete (canned 200 ''{}'' (Inr (JObj []))) (Client_new ''t'')
        ''https://pixe.la/v1/users/u'' [])))) = None"
  by (simp add: Client_delete_eq Let_def)

text \<open>
  C3, amended. \<open>post\<close> and \<open>put\<close> send the header \<open>Content-Type: application/json\<close>
  and, as body, the JSON serialization of the payload; \<open>get\<close> and \<open>delete\<close> send
  neither. The requests of all four carry the token of the transport in the header
  \<open>X-USER-TOKEN\<close>, and every one mutes the exceptions of the fetch primitive.
\<close>

theorem transport_requests:
  "snd (Client_post rt c url pl sent) =
     sent @ [(url, \<lparr>method = ''post'', payload = JSON_stringify pl,
                    headers = [(''X-USER-TOKEN'', Client.token c),
                               (''Content-Type'', ''application/json'')],
                    muteHttpExceptions = True\<rparr>)] \<and>
   snd (Client_put rt c url pl sent) =
     sent @ [(url, \<lparr>method = ''put'', payload = JSON_stringify pl,
                    headers = [(''X-USER-TOKEN'', Client.token c),
                               (''Content-Type'', ''application/json'')],
                    muteHttpExceptions = True\<rparr>)] \<and>
   snd (Client_get rt c url sent) =
     sent @ [(url, \<lparr>method = ''get'', payload = None,
                    headers = [(''X-USER-TOKEN'', Client.token c)],
                    muteHttpExceptions = True\<rparr>)] \<and>
   snd (Client_delete rt c url sent) =
     sent @ [(url, \<lparr>method = ''delete'', payload = None,
                    headers = [(''X-USER-TOKEN'', Client.token c)],
                    muteHttpExceptions = True\<rparr>)]"
  by (simp add: transport_eqs Let_def)

section \<open>Token rotation\<close>

text \<open>
  C4. The token of the transport equals the stored token of the instance after
  \<open>create\<close> and any sequence of calls, and every single call preserves that equality.
  After \<open>setToken t'\<close>, whatever the instance was, the calls that follow (up to the next
  \<open>setToken\<close>) leave the requests issued before as they are, and every request they
  add carries \<open>t'\<close>, and nothing else, as \<open>X-USER-TOKEN\<close>.
\<close>

theorem token_rotation:
  "Client.token (client (fst (invoke_all rt cs0 (create u t) sent0))) =
     Pixela.token (fst (invoke_all rt cs0 (create u t) sent0)) \<and>
   (Client.token (client this) = Pixela.token this \<longrightarrow>
      Client.token (client (fst (snd (invoke rt c this sent)))) =
        Pixela.token (fst (snd (invoke rt c this sent)))) \<and>
   ((\<forall>s. SetToken s \<notin> set cs) \<longrightarrow>
      take (length sent) (snd (invoke_all rt cs (setToken t' this) sent)) = sent \<and>
      (\<forall>r\<in>set (drop (length sent) (snd (invoke_all rt cs (setToken t' this) sent))).
         auth_tokens r = [t']))"
proof (intro conjI impI)
  show "Client.token (client (fst (invoke_all rt cs0 (create u t) sent0))) =
     Pixela.token (fst (invoke_all rt cs0 (create u t) sent0))"
    by (rule invoke_all_invariant) (simp add: create_def Client_new_def)
next
  assume "Client.token (client this) = Pixela.token this"
  then show "Client.token (client (fst (snd (invoke rt c this sent)))) =
        Pixela.token (fst (snd (invoke rt c this sent)))"
    by (rule invoke_invariant)
next
  assume "\<forall>s. SetToken s \<notin> set cs"
  then obtain new where
    n: "snd (invoke_all rt cs (setToken t' this) sent) = sent @ new"
       "\<forall>r\<in>set new. auth_tokens r = [Client.token (client (setToken t' this))]"
    using invoke_all_requests [of cs rt "setToken t' this" sent] by auto
  show "take (length sent) (snd (invoke_all rt cs (setToken t' this) sent)) = sent"
    by (simp add: n(1))
  show "\<forall>r\<in>set (drop (length sent) (snd (invoke_all rt cs (setToken t' this) sent))).
         auth_tokens r = [t']"
  proof -
    have "Client.token (client (setToken t' this)) = t'"
      by (simp add: setToken_def Client_new_def)
    with n(2) show ?thesis
      by (simp add: n(1))
  qed
qed

theorem token_rotation_witness:
  "Client.token (client (create ''u'' ''old'')) = Pixela.token (create ''u'' ''old'') \<and>
   Client.token (client (fst (snd (invoke (canned 200 ''{}'' (Inr (JObj [])))
      (SetToken ''new'') (create ''u'' ''old'') [])))) =
     Pixela.token (fst (snd (invoke (canned 200 ''{}'' (Inr (JObj [])))
      (SetToken ''new'') (create ''u'' ''old'') []))) \<and>
   (\<forall>s. SetToken s \<notin> set [GetGraph, DeleteGraph ''g'']) \<and>
   map auth_tokens
     (snd (invoke_all (canned 200 ''{}'' (Inr (JObj []))) [GetGraph, DeleteGraph ''g'']
             (setToken ''new'' (create ''u'' ''old'')) [])) = [[''new''], [''new'']]"
  using token_rotation
    [of "canned 200 ''{}'' (Inr (JObj []))" "[]" "''u''" "''old''" "[]" "create ''u'' ''old''"
        "SetToken ''new''" "[]" "[GetGraph, DeleteGraph ''g'']" "''new''"]
  by (simp add: create_def Client_new_def setToken_def as_json_def getGraph_def deleteGraph_def
      transport_eqs Let_def auth_tokens_def)

section \<open>Webhook invocation\<close>

text \<open>
  C5. For every webhook hash, \<open>invokeWebhook\<close> issues exactly one request, a POST to
  the URL of the webhook, and that request has no body.
\<close>

theorem invokeWebhook_sends_no_body:
  "snd (invokeWebhook rt this webhookHash sent) =
     sent @ [(baseURL this @ ''/'' @ apiVersion this @ ''/users/'' @ username this
                @ ''/webhooks/'' @ webhookHash,
              \<lparr>method = ''post'', payload = None,
               headers = [(''X-USER-TOKEN'', Client.token (client this)),
                          (''Content-Type'', ''application/json'')],
               muteHttpExceptions = True\<rparr>)]"
  by (simp add: invokeWebhook_def Client_post_eq Let_def webhook_detail_url)

section \<open>Query strings\<close>

text \<open>
  C6. \<open>buildQuery\<close> returns the URL unchanged when no parameter has a defined value
  (one that passes the test \<open>!= undefined\<close>), and otherwise the URL, \<open>?\<close>, and the
  \<open>key=value\<close> strings of exactly the parameters with a defined value, in the order of
  the parameters, joined by \<open>&\<close>. A string value is appended as it is, with no
  encoding. With two optional string parameters this gives the four cases below, the
  first key before the second; \<open>getSvg\<close> requests the URL built so from \<open>date\<close> and
  \<open>mode\<close>, \<open>getGraphPixelsDate\<close> the one from \<open>from\<close> and \<open>to\<close>. The URL is a
  function of these inputs alone.
\<close>

theorem buildQuery_appends_defined_parameters:
  "buildQuery url ps =
     (let given = filter (\<lambda>kv. snd kv \<noteq> JUndefined \<and> snd kv \<noteq> JNull) ps
      in if given = [] then url
         else url @ ''?'' @ join ''&'' (map (\<lambda>kv. fst kv @ ''='' @ ToString (snd kv)) given)) \<and>
   ToString (of_optional (Some s)) = s \<and>
   buildQuery url [(k1, of_optional None), (k2, of_optional None)] = url \<and>
   buildQuery url [(k1, of_optional (Some v1)), (k2, of_optional None)] =
     url @ ''?'' @ k1 @ ''='' @ v1 \<and>
   buildQuery url [(k1, of_optional None), (k2, of_optional (Some v2))] =
     url @ ''?'' @ k2 @ ''='' @ v2 \<and>
   buildQuery url [(k1, of_optional (Some v1)), (k2, of_optional (Some v2))] =
     url @ ''?'' @ k1 @ ''='' @ v1 @ ''&'' @ k2 @ ''='' @ v2 \<and>
   map fst (snd (getSvg rt this g dateStr mode sent)) =
     map fst sent @ [buildQuery (generateGraphIDURL this g)
                       [(''date'', of_optional dateStr), (''mode'', of_optional mode)]] \<and>
   map fst (snd (getGraphPixelsDate rt this g fromDateStr toDateStr sent)) =
     map fst sent @ [buildQuery (generateDetailURL this g ''pixels'')
                       [(''from'', of_optional fromDateStr), (''to'', of_optional toDateStr)]]"
  by (simp add: buildQuery_def buildQuery_loop buildQuery_step_def Let_def getSvg_def
      getGraphPixelsDate_def transport_eqs del: formatString.simps)

section \<open>Optional parameters in the payload\<close>

text \<open>
  The value that \<open>createPixel\<close> stores under \<open>optionalData\<close> is a string, the JSON
  text of the object supplied, and not that object.
\<close>

theorem optionalData_value_counterexample:
  \<open>obj_get (createPixel_payload ''20210101'' 1 (JObj [(''a'', JNum 1)])) ''optionalData'' =
     JStr ''{"a":1}'' \<and>
   JStr ''{"a":1}'' \<noteq> JObj [(''a'', JNum 1)]\<close>
  by (simp add: createPixel_payload_def obj_get_def quote_def escape_char_def
      Number_toString_def show_nat.simps [of "Suc 0"] digit_def)

text \<open>
  C7, amended. In the payload of \<open>createGraph\<close> the keys \<open>timezone\<close> and
  \<open>selfSufficient\<close> do not occur when the parameter is omitted and occur exactly once,
  with the supplied string, when it is supplied. In the payloads of \<open>createPixel\<close> and
  \<open>updatePixel\<close> the key \<open>optionalData\<close> does not occur when the parameter is omitted
  and occurs exactly once when it is supplied, carrying the JSON serialization of the
  supplied value as a string. These payloads, serialized, are the bodies of the requests.
\<close>

theorem optional_parameters_in_payload:
  "map snd (filter (\<lambda>kv. fst kv = ''timezone'') (createGraph_payload g n u ty c tz ss)) =
     (case tz of None \<Rightarrow> [] | Some z \<Rightarrow> [JStr z]) \<and>
   map snd (filter (\<lambda>kv. fst kv = ''selfSufficient'') (createGraph_payload g n u ty c tz ss)) =
     (case ss of None \<Rightarrow> [] | Some z \<Rightarrow> [JStr z]) \<and>
   map snd (filter (\<lambda>kv. fst kv = ''optionalData'') (createPixel_payload d q od)) =
     (case JSON_stringify od of None \<Rightarrow> [] | Some s \<Rightarrow> [JStr s]) \<and>
   map snd (filter (\<lambda>kv. fst kv = ''optionalData'') (updatePixel_payload q od)) =
     (case JSON_stringify od of None \<Rightarrow> [] | Some s \<Rightarrow> [JStr s]) \<and>
   (JSON_stringify od = None) = (od = JUndefined) \<and>
   payload (snd (last (snd (createGraph rt this g n u ty c tz ss sent)))) =
     JSON_stringify (JObj (createGraph_payload g n u ty c tz ss)) \<and>
   payload (snd (last (snd (createPixel rt this g d q od sent)))) =
     JSON_stringify (JObj (createPixel_payload d q od)) \<and>
   payload (snd (last (snd (updatePixel rt this g d q od sent)))) =
     JSON_stringify (JObj (updatePixel_payload q od))"
proof -
  have graph: "map snd (filter (\<lambda>kv. fst kv = ''timezone'') (createGraph_payload g n u ty c tz ss)) =
     (case tz of None \<Rightarrow> [] | Some z \<Rightarrow> [JStr z])"
    "map snd (filter (\<lambda>kv. fst kv = ''selfSufficient'') (createGraph_payload g n u ty c tz ss)) =
     (case ss of None \<Rightarrow> [] | Some z \<Rightarrow> [JStr z])"
    by (cases tz; cases ss; simp add: createGraph_payload_def)+
  have pixel: "map snd (filter (\<lambda>kv. fst kv = ''optionalData'') (createPixel_payload d q od)) =
     (case JSON_stringify od of None \<Rightarrow> [] | Some s \<Rightarrow> [JStr s])"
    "map snd (filter (\<lambda>kv. fst kv = ''optionalData'') (updatePixel_payload q od)) =
     (case JSON_stringify od of None \<Rightarrow> [] | Some s \<Rightarrow> [JStr s])"
    by (cases od; simp add: createPixel_payload_def updatePixel_payload_def)+
  have sent: "payload (snd (last (snd (createGraph rt this g n u ty c tz ss sent)))) =
     JSON_stringify (JObj (createGraph_payload g n u ty c tz ss))"
    "payload (snd (last (snd (createPixel rt this g d q od sent)))) =
     JSON_stringify (JObj (createPixel_payload d q od))"
    "payload (snd (last (snd (updatePixel rt this g d q od sent)))) =
     JSON_stringify (JObj (updatePixel_payload q od))"
    by (simp_all add: createGraph_def createPixel_def updatePixel_def transport_eqs Let_def)
  show ?thesis
    using graph pixel sent stringify_undefined [of od] by blast
qed

section \<open>Status codes and malformed bodies\<close>

text \<open>
  C8. When the remote side answers with a response, whatever its status code, each of
  \<open>get\<close>, \<open>post\<close>, \<open>put\<close> and \<open>delete\<close> returns the text of the response and raises
  nothing; and when that text decodes to a value, every operation that decodes returns
  this value, so that an error body of the service comes back as an object with its
  \<open>isSuccess\<close> and \<open>message\<close> fields.
\<close>

theorem status_never_raises:
  "\<forall>url opts. server rt sent url opts = Inr r \<Longrightarrow>
     fst (Client_get rt c url sent) = Inr (getContentText r) \<and>
     fst (Client_post rt c url pl sent) = Inr (getContentText r) \<and>
     fst (Client_put rt c url pl sent) = Inr (getContentText r) \<and>
     fst (Client_delete rt c url sent) = Inr (getContentText r) \<and>
     (decodes op \<and> JSON_parse rt (getContentText r) = Inr v \<longrightarrow>
        fst (invoke rt op this sent) = Inr (Json v))"
  by (simp add: transport_eqs Let_def invoke_decodes)

theorem status_never_raises_witness:
  \<open>(\<forall>url opts.
      server (canned 404 ''{"message":"no such graph","isSuccess":false}''
                (Inr (JObj [(''message'', JStr ''no such graph''), (''isSuccess'', JBool False)])))
        [] url opts =
      Inr \<lparr>getResponseCode = 404,
           getContentText = ''{"message":"no such graph","isSuccess":false}''\<rparr>) \<and>
   decodes (DeleteGraph ''g'') \<and>
   fst (Client_delete
          (canned 404 ''{"message":"no such graph","isSuccess":false}''
             (Inr (JObj [(''message'', JStr ''no such graph''), (''isSuccess'', JBool False)])))
          (Client_new ''t'') ''https://pixe.la/v1/users/u/graphs/g'' []) =
     Inr ''{"message":"no such graph","isSuccess":false}'' \<and>
   fst (invoke
          (canned 404 ''{"message":"no such graph","isSuccess":false}''
             (Inr (JObj [(''message'', JStr ''no such graph''), (''isSuccess'', JBool False)])))
          (DeleteGraph ''g'') (create ''u'' ''t'') []) =
     Inr (Json (JObj [(''message'', JStr ''no such graph''), (''isSuccess'', JBool False)]))\<close>
  using status_never_raises
    [of \<open>canned 404 ''{"message":"no such graph","isSuccess":false}''
           (Inr (JObj [(''message'', JStr ''no such graph''), (''isSuccess'', JBool False)]))\<close>
        "[]"
        \<open>\<lparr>getResponseCode = 404,
          getContentText = ''{"message":"no such graph","isSuccess":false}''\<rparr>\<close>
        "Client_new ''t''" "''https://pixe.la/v1/users/u/graphs/g''" JUndefined
        "DeleteGraph ''g''"
        "JObj [(''message'', JStr ''no such graph''), (''isSuccess'', JBool False)]"
        "create ''u'' ''t''"]
  by (simp add: canned_def)

text \<open>
  C9. When the remote side answers with a body that the JSON decoder rejects, every
  operation that decodes the response (all but \<open>getSvg\<close>) raises the failure of the
  decoder: it returns no value.
\<close>

theorem malformed_body_propagates:
  "\<forall>url opts. server rt sent url opts = Inr r \<Longrightarrow> decodes op \<Longrightarrow>
   JSON_parse rt (getContentText r) = Inl e \<Longrightarrow>
   fst (invoke rt op this sent) = Inl e"
  by (simp add: invoke_decodes)

theorem malformed_body_propagates_witness:
  "(\<forall>url opts.
      server (canned 200 ''<html>'' (Inl (SyntaxError ''<html>''))) [] url opts =
      Inr \<lparr>getResponseCode = 200, getContentText = ''<html>''\<rparr>) \<and>
   decodes (GetPixel ''g'' ''20210101'') \<and>
   JSON_parse (canned 200 ''<html>'' (Inl (SyntaxError ''<html>''))) ''<html>'' =
     Inl (SyntaxError ''<html>'') \<and>
   fst (invoke (canned 200 ''<html>'' (Inl (SyntaxError ''<html>'')))
          (GetPixel ''g'' ''20210101'') (create ''u'' ''t'') []) =
     Inl (SyntaxError ''<html>'')"
  using malformed_body_propagates
    [of "canned 200 ''<html>'' (Inl (SyntaxError ''<html>''))" "[]"
        "\<lparr>getResponseCode = 200, getContentText = ''<html>''\<rparr>"
        "GetPixel ''g'' ''20210101''" "SyntaxError ''<html>''" "create ''u'' ''t''"]
  by (simp add: canned_def)

section \<open>The frame of setToken\<close>

text \<open>
  C10. \<open>setToken\<close> changes the stored token and the transport only: \<open>baseURL\<close>,
  \<open>apiVersion\<close> and \<open>username\<close> are unchanged, every URL generator gives the same URL
  as before, and every call issues its request to the same URL as it would have without
  the rotation.
\<close>

theorem setToken_frame_urls:
  "baseURL (setToken t this) = baseURL this \<and>
   apiVersion (setToken t this) = apiVersion this \<and>
   username (setToken t this) = username this \<and>
   Pixela.token (setToken t this) = t \<and>
   client (setToken t this) = Client_new t \<and>
   generateUserURL (setToken t this) = generateUserURL this \<and>
   generateUserIDURL (setToken t this) = generateUserIDURL this \<and>
   generateGraphsURL (setToken t this) = generateGraphsURL this \<and>
   generateGraphIDURL (setToken t this) g = generateGraphIDURL this g \<and>
   generateDetailURL (setToken t this) g d = generateDetailURL this g d \<and>
   generateWebhookURL (setToken t this) = generateWebhookURL this \<and>
   generateWebhookDetailURL (setToken t this) h = generateWebhookDetailURL this h \<and>
   map fst (snd (snd (invoke rt c (setToken t this) sent))) =
     map fst (snd (snd (invoke rt c this sent)))"
proof -
  have urls: "map fst (snd (snd (invoke rt c (setToken t this) sent))) =
     map fst (snd (snd (invoke rt c this sent)))"
    by (cases c)
      (simp_all add: as_json_def as_text_def operation_defs transport_eqs Let_def
        generateUserURL_def generateUserIDURL_def generateGraphsURL_def generateGraphIDURL_def
        generateDetailURL_def generateWebhookURL_def generateWebhookDetailURL_def
        setToken_frame del: formatString.simps)
  show ?thesis
    by (simp add: urls generateUserURL_def generateUserIDURL_def generateGraphsURL_def
        generateGraphIDURL_def generateDetailURL_def generateWebhookURL_def
        generateWebhookDetailURL_def setToken_frame del: formatString.simps)
      (simp add: setToken_def)
qed

end
